theory Spec2Isabelle
  imports Main
begin

section \<open>Trap detection (\<open>rpg-dm-tools/tools/detect_traps.py\<close>)\<close>

text \<open>
  The module holds one global table, \<open>ROOM_TRAPS\<close>, and one function,
  \<open>detect_traps(session_id, perception_bonus)\<close>. The function reads the session's
  \<open>state.json\<close>, draws a d20 from the global random generator, looks the current room
  up in the table and returns a dict. Everything it touches outside its arguments is
  collected in a record \<open>world\<close> that the model takes and returns: the file system, the
  module global and the state of the random generator. Exceptions that the function
  lets escape are the \<open>Inl\<close> side of its result.
\<close>

subsection \<open>Python values\<close>

text \<open>
  What \<open>json.load\<close> can return. A float is kept as its literal: the function never
  looks inside one. A dict is the list of its items; a lookup takes the first binding
  of a key.
\<close>

datatype json =
    JNull
  | JBool bool
  | JInt int
  | JFloat string
  | JStr string
  | JList "json list"
  | JObj "(string \<times> json) list"

text \<open>The values stored in the returned dict, and the dict itself in insertion order.\<close>

datatype pyval = PBool bool | PInt int | PStr string

type_synonym result = "(string \<times> pyval) list"

text \<open>The exceptions that the operations used by \<open>detect_traps\<close> can raise.\<close>

datatype exn = AttributeError | TypeError | KeyError | ValueError | OSError string

text \<open>
  \<open>str(n)\<close> for an int: decimal digits, with a minus sign for a negative number.
\<close>

fun str_nat :: "nat \<Rightarrow> string" where
  "str_nat n =
     (if n < 10 then [char_of (48 + n)]
      else str_nat (n div 10) @ [char_of (48 + n mod 10)])"

declare str_nat.simps [simp del]

definition str_int :: "int \<Rightarrow> string" where
  "str_int i = (if i < 0 then CHR ''-'' # str_nat (nat (- i)) else str_nat (nat i))"

subsection \<open>The trap table\<close>

record trap =
  has_trap :: bool
  trap_type :: string
  description :: string
  difficulty :: string
  damage :: string

type_synonym trap_table = "(string \<times> trap) list"

definition apostrophe :: string where
  "apostrophe = [CHR 0x27]"

definition newline :: string where
  "newline = [CHR 0x0A]"

definition ROOM_TRAPS :: trap_table where
  "ROOM_TRAPS =
     [(''darkwood_forest_entrance'',
         \<lparr>has_trap = True,
          trap_type = ''tripwire'',
          description = ''A nearly invisible tripwire stretched across the path, connected to a net trap overhead.'',
          difficulty = ''easy'',
          damage = ''1d6''\<rparr>),
      (''ancient_crypt'',
         \<lparr>has_trap = True,
          trap_type = ''pressure_plate'',
          description = ''A stone pressure plate on the floor, likely triggering poison darts from the walls.'',
          difficulty = ''medium'',
          damage = ''2d6''\<rparr>),
      (''dragon_lair'',
         \<lparr>has_trap = True,
          trap_type = ''magical_ward'',
          description = ''Glowing runes around the entrance - a magical alarm that will alert the dragon.'',
          difficulty = ''hard'',
          damage = ''3d8''\<rparr>)]"

subsection \<open>The world outside the function\<close>

text \<open>
  The file system maps a path to what the calls of the function find there.
  \<^item> No entry: \<open>stat\<close> fails with \<open>ENOENT\<close>, \<open>ENOTDIR\<close>, \<open>EBADF\<close> or \<open>ELOOP\<close>, or the path
    cannot be encoded. These are the failures that \<open>Path.exists()\<close> turns into \<open>False\<close>.
  \<^item> \<open>Inaccessible e\<close>: \<open>stat\<close> fails with another \<open>OSError\<close> (a directory on the way
    may not be searched, a name is too long); \<open>e\<close> is its \<open>str\<close>.
  \<^item> \<open>Unreadable e\<close>: the path exists and \<open>open(path, 'r')\<close> or \<open>json.load\<close> raises (the
    path is a directory, the file may not be read or does not hold JSON); \<open>e\<close> is the
    \<open>str\<close> of the exception.
  \<^item> \<open>Parsed j\<close>: the path exists and \<open>json.load\<close> returns \<open>j\<close>.
\<close>

datatype fsentry = Inaccessible string | Unreadable string | Parsed json

text \<open>
  \<open>rng\<close> is the sequence of raw outputs of the global generator of module \<open>random\<close> and
  \<open>drawn\<close> counts how many of them have been used.
\<close>

record world =
  files :: "string \<rightharpoonup> fsentry"
  room_traps :: trap_table
  rng :: "nat \<Rightarrow> nat"
  drawn :: nat

text \<open>
  \<open>Path.exists()\<close> calls \<open>stat\<close>; it returns \<open>False\<close> for the failures listed above and lets
  every other \<open>OSError\<close> through.
\<close>

definition path_exists :: "string \<Rightarrow> world \<Rightarrow> exn + bool" where
  "path_exists p w =
     (case files w p of
        None \<Rightarrow> Inr False
      | Some (Inaccessible e) \<Rightarrow> Inl (OSError e)
      | Some _ \<Rightarrow> Inr True)"

text \<open>
  The body of the \<open>try\<close> block: the result is \<open>Inl (str(e))\<close> when \<open>open\<close> or
  \<open>json.load\<close> raises. Opening in mode \<open>'r'\<close> neither creates nor truncates.
\<close>

definition json_load :: "string \<Rightarrow> world \<Rightarrow> string + json" where
  "json_load p w =
     (case files w p of
        None \<Rightarrow> Inl (''[Errno 2] No such file or directory: '' @ apostrophe @ p @ apostrophe)
      | Some (Inaccessible m) \<Rightarrow> Inl m
      | Some (Unreadable m) \<Rightarrow> Inl m
      | Some (Parsed j) \<Rightarrow> Inr j)"

text \<open>
  \<open>random.randint(a, b)\<close> is library code, modelled by its contract: it raises
  \<open>ValueError\<close> on an empty range and otherwise returns an integer of \<open>[a, b]\<close>, both
  ends included, that the next raw output of the generator selects; the generator
  advances.
\<close>

definition randint :: "int \<Rightarrow> int \<Rightarrow> world \<Rightarrow> (exn + int) \<times> world" where
  "randint a b w =
     (if b < a then (Inl ValueError, w)
      else (Inr (a + int (rng w (drawn w) mod nat (b - a + 1))),
            w\<lparr>drawn := Suc (drawn w)\<rparr>))"

subsection \<open>Dict operations\<close>

text \<open>\<open>d.get(key, default)\<close> on a dict with string keys.\<close>

definition dict_get :: "(string \<times> 'v) list \<Rightarrow> string \<Rightarrow> 'v \<Rightarrow> 'v" where
  "dict_get d k dflt = (case map_of d k of None \<Rightarrow> dflt | Some v \<Rightarrow> v)"

text \<open>
  \<open>state.get(key, default)\<close> on whatever \<open>json.load\<close> returned: only a dict has the
  method.
\<close>

fun state_get :: "json \<Rightarrow> string \<Rightarrow> json \<Rightarrow> exn + json" where
  "state_get (JObj kvs) k dflt = Inr (dict_get kvs k dflt)"
| "state_get _ k dflt = Inl AttributeError"

text \<open>A list and a dict cannot be hashed; every other decoded JSON value can.\<close>

fun hashable :: "json \<Rightarrow> bool" where
  "hashable (JList _) = False"
| "hashable (JObj _) = False"
| "hashable _ = True"

text \<open>
  \<open>key in table\<close> and \<open>table[key]\<close> for a table with string keys: the key is hashed
  first, and only a string can be equal to a key.
\<close>

fun py_in :: "json \<Rightarrow> trap_table \<Rightarrow> exn + bool" where
  "py_in (JStr r) tbl = Inr (map_of tbl r \<noteq> None)"
| "py_in v tbl = (if hashable v then Inr False else Inl TypeError)"

fun py_getitem :: "trap_table \<Rightarrow> json \<Rightarrow> exn + trap" where
  "py_getitem tbl (JStr r) = (case map_of tbl r of None \<Rightarrow> Inl KeyError | Some t \<Rightarrow> Inr t)"
| "py_getitem tbl v = (if hashable v then Inl KeyError else Inl TypeError)"

subsection \<open>\<open>detect_traps\<close>\<close>

text \<open>
  \<open>Path("game_data") / "sessions" / session_id / "state.json"\<close>: joining with an
  empty segment changes nothing and joining with an absolute segment discards what is
  to its left. (\<open>pathlib\<close> also drops repeated separators and \<open>.\<close> segments, which
  does not change the file that the path names.)
\<close>

definition joinpath :: "string \<Rightarrow> string \<Rightarrow> string" where
  "joinpath p s =
     (case s of
        [] \<Rightarrow> p
      | c # _ \<Rightarrow> if c = CHR ''/'' then s else p @ ''/'' @ s)"

definition state_file :: "string \<Rightarrow> string" where
  "state_file session_id =
     joinpath (joinpath (joinpath ''game_data'' ''sessions'') session_id) ''state.json''"

definition difficulty_dc :: "(string \<times> int) list" where
  "difficulty_dc = [(''easy'', 10), (''medium'', 15), (''hard'', 20)]"

text \<open>The messages. The three symbols are written as their UTF-8 bytes.\<close>

definition not_found_message :: "string \<Rightarrow> string" where
  "not_found_message session_id =
     ''Session '' @ apostrophe @ session_id @ apostrophe
       @ '' not found. Create a session first with create_session().''"

definition read_failed_message :: "string \<Rightarrow> string" where
  "read_failed_message e = ''Failed to read session state: '' @ e"

definition success_message :: "int \<Rightarrow> int \<Rightarrow> trap \<Rightarrow> string" where
  "success_message perception_roll dc trap_data =
     [CHR 0xF0, CHR 0x9F, CHR 0x8E, CHR 0xAF] @ '' Success! (Rolled '' @ str_int perception_roll
       @ '' vs DC '' @ str_int dc @ '')'' @ newline @ newline
       @ ''You carefully scan the area and spot a '' @ trap_type trap_data @ '':'' @ newline
       @ description trap_data @ newline @ newline
       @ ''This trap appears to be '' @ difficulty trap_data
       @ '' to disarm and could deal '' @ damage trap_data @ '' damage if triggered.''"

definition failed_message :: "int \<Rightarrow> int \<Rightarrow> string" where
  "failed_message perception_roll dc =
     [CHR 0xE2, CHR 0x9D, CHR 0x8C] @ '' Failed! (Rolled '' @ str_int perception_roll
       @ '' vs DC '' @ str_int dc @ '')'' @ newline @ newline
       @ ''You search the area carefully but don'' @ apostrophe
       @ ''t notice anything suspicious. The room appears safe... or does it?''"

definition clear_message :: "int \<Rightarrow> string" where
  "clear_message perception_roll =
     [CHR 0xE2, CHR 0x9C, CHR 0x93] @ '' Clear! (Rolled '' @ str_int perception_roll @ '')''
       @ newline @ newline
       @ ''You thoroughly search the area. There are no traps in this location - you can proceed safely.''"

text \<open>The three dicts returned after the roll.\<close>

definition found_result :: "int \<Rightarrow> int \<Rightarrow> trap \<Rightarrow> result" where
  "found_result perception_roll dc trap_data =
     [(''success'', PBool True),
      (''roll'', PInt perception_roll),
      (''dc'', PInt dc),
      (''trap_found'', PBool True),
      (''trap_type'', PStr (trap_type trap_data)),
      (''description'', PStr (description trap_data)),
      (''difficulty'', PStr (difficulty trap_data)),
      (''potential_damage'', PStr (damage trap_data)),
      (''message'', PStr (success_message perception_roll dc trap_data))]"

definition failed_result :: "int \<Rightarrow> int \<Rightarrow> result" where
  "failed_result perception_roll dc =
     [(''success'', PBool False),
      (''roll'', PInt perception_roll),
      (''dc'', PInt dc),
      (''trap_found'', PBool False),
      (''message'', PStr (failed_message perception_roll dc))]"

definition clear_result :: "int \<Rightarrow> result" where
  "clear_result perception_roll =
     [(''success'', PBool True),
      (''roll'', PInt perception_roll),
      (''trap_found'', PBool False),
      (''message'', PStr (clear_message perception_roll))]"

definition error_result :: "string \<Rightarrow> result" where
  "error_result msg = [(''error'', PBool True), (''message'', PStr msg)]"

text \<open>
  The part of the body of \<open>detect_traps\<close> after the roll (the \<open>if current_room in
  ROOM_TRAPS\<close> statement), as a definition of its own: the table lookup, the DC and
  the comparison.
\<close>

definition resolve :: "json \<Rightarrow> int \<Rightarrow> trap_table \<Rightarrow> exn + result" where
  "resolve current_room perception_roll tbl =
     (case py_in current_room tbl of
        Inl x \<Rightarrow> Inl x
      | Inr True \<Rightarrow>
          (case py_getitem tbl current_room of
             Inl x \<Rightarrow> Inl x
           | Inr trap_data \<Rightarrow>
               (let dc = dict_get difficulty_dc (difficulty trap_data) 15 in
                if perception_roll \<ge> dc
                then Inr (found_result perception_roll dc trap_data)
                else Inr (failed_result perception_roll dc)))
      | Inr False \<Rightarrow> Inr (clear_result perception_roll))"

definition detect_traps :: "string \<Rightarrow> int \<Rightarrow> world \<Rightarrow> (exn + result) \<times> world" where
  "detect_traps session_id perception_bonus w =
     (case path_exists (state_file session_id) w of
        Inl x \<Rightarrow> (Inl x, w)
      | Inr False \<Rightarrow> (Inr (error_result (not_found_message session_id)), w)
      | Inr True \<Rightarrow>
          (case json_load (state_file session_id) w of
             Inl e \<Rightarrow> (Inr (error_result (read_failed_message e)), w)
           | Inr state \<Rightarrow>
               (case state_get state ''current_room'' (JStr '''') of
                  Inl x \<Rightarrow> (Inl x, w)
                | Inr current_room \<Rightarrow>
                    (case randint 1 20 w of
                       (Inl x, w') \<Rightarrow> (Inl x, w')
                     | (Inr d, w') \<Rightarrow>
                         (resolve current_room (d + perception_bonus) (room_traps w'), w')))))"

text \<open>The world in which the module has just been imported.\<close>

definition init_world :: "(string \<rightharpoonup> fsentry) \<Rightarrow> (nat \<Rightarrow> nat) \<Rightarrow> world" where
  "init_world fs g = \<lparr>files = fs, room_traps = ROOM_TRAPS, rng = g, drawn = 0\<rparr>"

subsection \<open>Example worlds\<close>

text \<open>
  One session, \<open>s1\<close>, whose state file decodes to \<open>st\<close>; the generator outputs \<open>raw\<close>
  at every draw, so that \<open>random.randint(1, 20)\<close> returns \<open>1 + raw mod 20\<close>.
\<close>

definition session_world :: "json \<Rightarrow> nat \<Rightarrow> world" where
  "session_world st raw = init_world [state_file ''s1'' \<mapsto> Parsed st] (\<lambda>_. raw)"

definition in_room :: "string \<Rightarrow> json" where
  "in_room r = JObj [(''current_room'', JStr r)]"




subsection \<open>Sessions that \<open>detect_traps\<close> can use\<close>

text \<open>
  \<open>state_file.exists()\<close> stands before the \<open>try\<close> block, and the code after the block
  expects the decoded state to be a dict, and its \<open>current_room\<close>, when there is one, to
  be a value that can be hashed. A session is usable when \<open>exists()\<close> returns and, if
  the state decodes, the decoded state has that shape.
\<close>

fun room_hashable :: "json \<Rightarrow> bool" where
  "room_hashable (JObj kvs) = hashable (dict_get kvs ''current_room'' (JStr []))"
| "room_hashable _ = False"

definition session_usable :: "world \<Rightarrow> string \<Rightarrow> bool" where
  "session_usable w sid =
     (case files w (state_file sid) of
        Some (Inaccessible e) \<Rightarrow> False
      | Some (Parsed st) \<Rightarrow> room_hashable st
      | _ \<Rightarrow> True)"

section \<open>Properties\<close>

subsection \<open>The paths through \<open>detect_traps\<close>\<close>

lemma detect_traps_absent:
  "files w (state_file sid) = None \<Longrightarrow>
   detect_traps sid b w = (Inr (error_result (not_found_message sid)), w)"
  by (simp add: detect_traps_def path_exists_def)

lemma detect_traps_unreadable:
  "files w (state_file sid) = Some (Unreadable m) \<Longrightarrow>
   detect_traps sid b w = (Inr (error_result (read_failed_message m)), w)"
  by (simp add: detect_traps_def path_exists_def json_load_def)

lemma detect_traps_inaccessible:
  "files w (state_file sid) = Some (Inaccessible e) \<Longrightarrow>
   detect_traps sid b w = (Inl (OSError e), w)"
  by (simp add: detect_traps_def path_exists_def)

lemma randint_d20:
  "randint 1 20 w = (Inr (1 + int (rng w (drawn w) mod 20)), w\<lparr>drawn := Suc (drawn w)\<rparr>)"
  by (simp add: randint_def)

lemma detect_traps_parsed:
  "files w (state_file sid) = Some (Parsed st) \<Longrightarrow>
   detect_traps sid b w =
     (case state_get st ''current_room'' (JStr '''') of
        Inl x \<Rightarrow> (Inl x, w)
      | Inr room \<Rightarrow>
          (resolve room (1 + int (rng w (drawn w) mod 20) + b) (room_traps w),
           w\<lparr>drawn := Suc (drawn w)\<rparr>))"
  by (simp add: detect_traps_def path_exists_def json_load_def randint_d20 split: sum.splits)

lemma resolve_trapped:
  "map_of tbl r = Some t \<Longrightarrow>
   resolve (JStr r) roll tbl =
     (if roll \<ge> dict_get difficulty_dc (difficulty t) 15
      then Inr (found_result roll (dict_get difficulty_dc (difficulty t) 15) t)
      else Inr (failed_result roll (dict_get difficulty_dc (difficulty t) 15)))"
  by (simp add: resolve_def)

lemma resolve_clear:
  "hashable v \<Longrightarrow> v \<notin> JStr ` fst ` set tbl \<Longrightarrow> resolve v roll tbl = Inr (clear_result roll)"
  by (cases v) (auto simp: resolve_def map_of_eq_None_iff image_iff)

lemma resolve_unhashable: "\<not> hashable v \<Longrightarrow> resolve v roll tbl = Inl TypeError"
  by (cases v) (auto simp: resolve_def)

lemma resolve_cases:
  "resolve v roll tbl = Inr res \<Longrightarrow>
     res = clear_result roll
   \<or> (\<exists>t dc. res = found_result roll dc t \<and> roll \<ge> dc)
   \<or> (\<exists>dc. res = failed_result roll dc \<and> roll < dc)"
  by (auto simp: resolve_def Let_def split: sum.splits bool.splits if_splits)

lemma detect_traps_Inr_cases:
  assumes "detect_traps sid b w = (Inr res, w')"
  shows "(\<exists>m. res = error_result m)
       \<or> (\<exists>v. resolve v (1 + int (rng w (drawn w) mod 20) + b) (room_traps w) = Inr res)"
proof (cases "files w (state_file sid)")
  case None
  with assms show ?thesis by (auto simp: detect_traps_absent)
next
  case (Some f)
  show ?thesis
  proof (cases f)
    case (Inaccessible e)
    with Some assms show ?thesis by (simp add: detect_traps_inaccessible)
  next
    case (Unreadable m)
    with Some assms show ?thesis by (auto simp: detect_traps_unreadable)
  next
    case (Parsed st)
    with Some assms show ?thesis
      by (auto simp: detect_traps_parsed split: sum.splits)
  qed
qed

text \<open>
  Every other session makes the function raise: \<open>OSError\<close> from \<open>exists()\<close>,
  \<open>AttributeError\<close> when the decoded state is not a dict, \<open>TypeError\<close> when its
  \<open>current_room\<close> cannot be hashed.
\<close>

lemma detect_traps_unusable_raises:
  assumes "\<not> session_usable w sid"
  shows "(\<exists>e. fst (detect_traps sid b w) = Inl (OSError e))
       \<or> fst (detect_traps sid b w) = Inl AttributeError
       \<or> fst (detect_traps sid b w) = Inl TypeError"
proof -
  from assms consider
      (locked) e where "files w (state_file sid) = Some (Inaccessible e)"
    | (shape) st where "files w (state_file sid) = Some (Parsed st)" "\<not> room_hashable st"
    by (auto simp: session_usable_def split: option.splits fsentry.splits)
  then show ?thesis
  proof cases
    case locked
    then show ?thesis by (simp add: detect_traps_inaccessible)
  next
    case shape
    show ?thesis
    proof (cases st)
      case (JObj kvs)
      with shape(2) have "\<not> hashable (dict_get kvs ''current_room'' (JStr []))"
        by simp
      with shape(1) JObj show ?thesis
        by (simp add: detect_traps_parsed resolve_unhashable)
    qed (use shape(1) in \<open>simp_all add: detect_traps_parsed\<close>)
  qed
qed

lemmas world_defs = session_world_def init_world_def in_room_def ROOM_TRAPS_def randint_def
  dict_get_def difficulty_dc_def

subsection \<open>Claims\<close>










text \<open>
  C6. Every dict that \<open>detect_traps\<close> returns without an \<open>error\<close> key holds an integer
  \<open>roll\<close> with \<open>1 + b \<le> roll \<le> 20 + b\<close> for the bonus \<open>b\<close> of the call: \<open>roll - b\<close> is the
  value of the die.
\<close>

theorem roll_in_range:
  assumes "detect_traps sid b w = (Inr res, w')"
    and "map_of res ''error'' = None"
  shows "\<exists>n. map_of res ''roll'' = Some (PInt n) \<and> 1 + b \<le> n \<and> n \<le> 20 + b
      \<and> n - b \<in> {1..20}"
proof -
  define roll where "roll = 1 + int (rng w (drawn w) mod 20) + b"
  have range: "1 + b \<le> roll \<and> roll \<le> 20 + b \<and> roll - b \<in> {1..20}"
    by (simp add: roll_def)
  from assms(1) consider
      (err) m where "res = error_result m"
    | (rolled) v where "resolve v roll (room_traps w) = Inr res"
    unfolding roll_def by (auto dest: detect_traps_Inr_cases)
  then have "map_of res ''roll'' = Some (PInt roll)"
  proof cases
    case err
    with assms(2) show ?thesis by (simp add: error_result_def)
  next
    case rolled
    then show ?thesis
      by (auto dest!: resolve_cases simp: clear_result_def found_result_def failed_result_def)
  qed
  with range show ?thesis by blast
qed

theorem roll_in_range_witness:
  "detect_traps ''s1'' 2 (session_world (in_room ''darkwood_forest_entrance'') 19) =
      (Inr (found_result 22 10 (snd (hd ROOM_TRAPS))),
       (session_world (in_room ''darkwood_forest_entrance'') 19)\<lparr>drawn := Suc 0\<rparr>)
   \<and> map_of (found_result 22 10 (snd (hd ROOM_TRAPS))) ''error'' = None
   \<and> (\<exists>n. map_of (found_result 22 10 (snd (hd ROOM_TRAPS))) ''roll'' = Some (PInt n)
        \<and> 1 + 2 \<le> n \<and> n \<le> 20 + 2 \<and> n - 2 \<in> {1..20})"
proof -
  have run: "detect_traps ''s1'' 2 (session_world (in_room ''darkwood_forest_entrance'') 19) =
      (Inr (found_result 22 10 (snd (hd ROOM_TRAPS))),
       (session_world (in_room ''darkwood_forest_entrance'') 19)\<lparr>drawn := Suc 0\<rparr>)"
    by (simp add: detect_traps_parsed resolve_trapped world_defs)
  have noerr: "map_of (found_result 22 10 (snd (hd ROOM_TRAPS))) ''error'' = None"
    by (simp add: found_result_def)
  from roll_in_range [OF run noerr] run noerr show ?thesis by simp
qed

text \<open>
  C7. Every entry of \<open>ROOM_TRAPS\<close> has \<open>has_trap\<close> \<open>True\<close>.
\<close>

theorem room_traps_all_trapped: "(room, t) \<in> set ROOM_TRAPS \<Longrightarrow> has_trap t"
  by (auto simp: ROOM_TRAPS_def)

theorem room_traps_all_trapped_witness:
  "(''dragon_lair'', snd (ROOM_TRAPS ! 2)) \<in> set ROOM_TRAPS
   \<and> has_trap (snd (ROOM_TRAPS ! 2))"
  using room_traps_all_trapped [of "''dragon_lair''" "snd (ROOM_TRAPS ! 2)"]
  by (simp add: ROOM_TRAPS_def)

text \<open>
  C8. A call of \<open>detect_traps\<close> leaves the file system and the trap table as they were,
  for every session identifier and bonus, whether it returns an error dict, another
  dict, or raises. (The generator of module \<open>random\<close> advances when the die is rolled.)
\<close>

theorem detect_traps_frame:
  "files (snd (detect_traps sid b w)) = files w
   \<and> room_traps (snd (detect_traps sid b w)) = room_traps w"
  by (simp add: detect_traps_def randint_d20 split: sum.splits bool.splits)







text \<open>
  C2, as stated, fails: a failed roll on a trapped room returns a dict without
  \<open>error\<close> key whose \<open>success\<close> is \<open>False\<close>. With the die at 5 and no bonus in the forest
  entrance (DC 10):
\<close>

theorem failed_roll_not_success:
  "fst (detect_traps ''s1'' 0 (session_world (in_room ''darkwood_forest_entrance'') 4))
     = Inr (failed_result 5 10)
   \<and> map_of (failed_result 5 10) ''error'' = None
   \<and> map_of (failed_result 5 10) ''trap_found'' = Some (PBool False)
   \<and> map_of (failed_result 5 10) ''success'' = Some (PBool False)"
  by (simp add: detect_traps_parsed resolve_trapped world_defs failed_result_def)

text \<open>
  C2, amended. Every dict that \<open>detect_traps\<close> returns without an \<open>error\<close> key has a
  Boolean \<open>success\<close>. It is \<open>True\<close> when the room has no trap (no \<open>dc\<close> key) and when the
  trap was found; it is \<open>False\<close> exactly on a failed roll on a trapped room, where the
  dict holds a roll below its DC and \<open>trap_found\<close> \<open>False\<close>.
\<close>

theorem success_unless_failed_roll:
  assumes "detect_traps sid b w = (Inr res, w')"
    and "map_of res ''error'' = None"
  shows "map_of res ''success'' =
           Some (PBool (map_of res ''dc'' = None \<or> map_of res ''trap_found'' = Some (PBool True)))
      \<and> (map_of res ''success'' = Some (PBool False) \<longleftrightarrow>
           (\<exists>roll dc. map_of res ''roll'' = Some (PInt roll)
              \<and> map_of res ''dc'' = Some (PInt dc)
              \<and> map_of res ''trap_found'' = Some (PBool False)
              \<and> roll < dc))"
proof -
  define roll where "roll = 1 + int (rng w (drawn w) mod 20) + b"
  from assms(1) consider
      (err) m where "res = error_result m"
    | (rolled) v where "resolve v roll (room_traps w) = Inr res"
    unfolding roll_def by (auto dest: detect_traps_Inr_cases)
  then show ?thesis
  proof cases
    case err
    with assms(2) show ?thesis by (simp add: error_result_def)
  next
    case rolled
    then consider
        (clear) "res = clear_result roll"
      | (found) t dc where "res = found_result roll dc t" "roll \<ge> dc"
      | (failed) dc where "res = failed_result roll dc" "roll < dc"
      by (auto dest!: resolve_cases)
    then show ?thesis
    proof cases
      case clear
      then show ?thesis by (simp add: clear_result_def)
    next
      case found
      then show ?thesis by (simp add: found_result_def)
    next
      case failed
      then show ?thesis by (simp add: failed_result_def)
    qed
  qed
qed

theorem success_unless_failed_roll_witness:
  "fst (detect_traps ''s1'' 0 (session_world (in_room ''darkwood_forest_entrance'') 4))
     = Inr (failed_result 5 10)
   \<and> map_of (failed_result 5 10) ''error'' = None
   \<and> map_of (failed_result 5 10) ''success'' = Some (PBool False)
   \<and> fst (detect_traps ''s1'' 0 (session_world (in_room ''town_square'') 4))
     = Inr (clear_result 5)
   \<and> map_of (clear_result 5) ''error'' = None
   \<and> map_of (clear_result 5) ''success'' = Some (PBool True)
   \<and> map_of (clear_result 5) ''dc'' = None"
proof -
  have run1: "detect_traps ''s1'' 0 (session_world (in_room ''darkwood_forest_entrance'') 4) =
      (Inr (failed_result 5 10),
       (session_world (in_room ''darkwood_forest_entrance'') 4)\<lparr>drawn := Suc 0\<rparr>)"
    by (simp add: detect_traps_parsed resolve_trapped world_defs)
  have noerr1: "map_of (failed_result 5 10) ''error'' = None"
    by (simp add: failed_result_def)
  have run2: "detect_traps ''s1'' 0 (session_world (in_room ''town_square'') 4) =
      (Inr (clear_result 5), (session_world (in_room ''town_square'') 4)\<lparr>drawn := Suc 0\<rparr>)"
    by (simp add: detect_traps_parsed resolve_clear world_defs)
  have noerr2: "map_of (clear_result 5) ''error'' = None"
    by (simp add: clear_result_def)
  from success_unless_failed_roll [OF run1 noerr1] success_unless_failed_roll [OF run2 noerr2]
    run1 run2
  show ?thesis
    by (auto simp: failed_result_def clear_result_def)
qed





end
